theory Spec2Isabelle
  imports Main "HOL-Library.Word"
begin

section \<open>Buffers\<close>

text \<open>
  The program file is read into a \<^verbatim>\<open>Buffer\<close>: a sequence of bytes. The
  operations below are the ones \<^verbatim>\<open>deployProgram\<close> calls on it
  (\<^verbatim>\<open>src/components/deploy/index.tsx\<close>).
\<close>

type_synonym byte = "8 word"
type_synonym Buffer = "byte list"

text \<open>
  A thrown JavaScript value, represented by the text that
  \<^verbatim>\<open>error instanceof Error ? error.message : String(error)\<close> yields for it.
\<close>

datatype Thrown = Thrown string

text \<open>\<^verbatim>\<open>Buffer.alloc(n)\<close>: n zero bytes.\<close>

definition Buffer_alloc :: "nat \<Rightarrow> Buffer" where
  "Buffer_alloc n = replicate n 0"

text \<open>
  \<^verbatim>\<open>buf.slice(start, end)\<close> for non-negative indices: both are clamped to the
  length, and an end before the start gives the empty buffer.
\<close>

definition slice :: "Buffer \<Rightarrow> nat \<Rightarrow> nat \<Rightarrow> Buffer" where
  "slice buf start end = drop start (take end buf)"

text \<open>
  \<^verbatim>\<open>buf.writeUInt32LE(value, offset)\<close>: a RangeError when the value does not fit in
  32 bits or the four bytes do not fit in the buffer (the text stands for the
  library's message); otherwise the four bytes at
  \<open>offset\<close> are overwritten, least significant first, each truncated to 8 bits.
\<close>

definition writeUInt32LE :: "nat \<Rightarrow> nat \<Rightarrow> Buffer \<Rightarrow> Thrown + Buffer" where
  "writeUInt32LE v offset buf =
     (if 4294967295 < v then Inl (Thrown ''RangeError: value out of range'')
      else if length buf < offset + 4 then Inl (Thrown ''RangeError: offset out of range'')
      else Inr (take offset buf
                @ [of_nat v, of_nat (v div 256), of_nat (v div 65536), of_nat (v div 16777216)]
                @ drop (offset + 4) buf))"

text \<open>The four bytes of a 32-bit value, least significant first.\<close>

definition le32 :: "nat \<Rightarrow> Buffer" where
  "le32 v = [of_nat v, of_nat (v div 256), of_nat (v div 65536), of_nat (v div 16777216)]"

text \<open>
  \<^verbatim>\<open>buf.readUInt32LE(offset)\<close> on a buffer that holds the four bytes: the reader
  that a loader uses on the payloads built below.
\<close>

definition readUInt32LE :: "Buffer \<Rightarrow> nat \<Rightarrow> nat" where
  "readUInt32LE buf offset =
     unat (buf ! offset) + 256 * unat (buf ! (offset + 1))
       + 65536 * unat (buf ! (offset + 2)) + 16777216 * unat (buf ! (offset + 3))"

text \<open>
  \<^verbatim>\<open>src.copy(target, targetStart)\<close>: as many bytes of \<open>src\<close> as fit are written
  into \<open>target\<close> from \<open>targetStart\<close> on.
\<close>

definition copy :: "Buffer \<Rightarrow> Buffer \<Rightarrow> nat \<Rightarrow> Buffer" where
  "copy src target targetStart =
     (let n = min (length src) (length target - targetStart)
      in take targetStart target @ take n src @ drop (targetStart + n) target)"

section \<open>Keys, instructions, transactions\<close>

text \<open>
  A public key is represented by its base58 text, so \<^verbatim>\<open>toBase58\<close> is the
  projection and \<^verbatim>\<open>new PublicKey(k.toBytes())\<close> is \<open>k\<close> again.
\<close>

datatype PublicKey = PublicKey string

fun toBase58 :: "PublicKey \<Rightarrow> string" where
  "toBase58 (PublicKey s) = s"

record Keypair =
  publicKey :: PublicKey
  secretKey :: Buffer

record AccountMeta =
  pubkey :: PublicKey
  isSigner :: bool
  isWritable :: bool

text \<open>
  An instruction is either the system program's account creation, whose byte layout
  belongs to the ledger library, or a \<^verbatim>\<open>TransactionInstruction\<close> with the keys,
  the program id and the payload the source gives it.
\<close>

datatype Instruction =
    SystemProgram_createAccount
      (fromPubkey: PublicKey) (newAccountPubkey: PublicKey)
      (lamports: nat) (space: nat) (owner: PublicKey)
  | TransactionInstruction
      (keys: "AccountMeta list") (loader: PublicKey) (payload: Buffer)

text \<open>
  A transaction: its instructions, and the public keys of the keypairs that have signed
  it locally (\<^verbatim>\<open>partialSign\<close>, or the signers handed to
  \<^verbatim>\<open>sendAndConfirmTransaction\<close>).
\<close>

record Transaction =
  instructions :: "Instruction list"
  signatures :: "PublicKey list"

definition new_Transaction :: Transaction where
  "new_Transaction = \<lparr>instructions = [], signatures = []\<rparr>"

definition add :: "Instruction \<Rightarrow> Transaction \<Rightarrow> Transaction" where
  "add ix tx = tx\<lparr>instructions := instructions tx @ [ix]\<rparr>"

definition partialSign :: "Keypair \<Rightarrow> Transaction \<Rightarrow> Transaction" where
  "partialSign kp tx = tx\<lparr>signatures := signatures tx @ [publicKey kp]\<rparr>"

definition chunkSize :: nat where
  "chunkSize = 900"

text \<open>
  The payload of a write, lines 250 to 253: allocate \<open>4 + 4 + chunk.length\<close> bytes,
  write the discriminant 0, write the offset, copy the chunk in.
\<close>

definition writeDataLayout :: "nat \<Rightarrow> Buffer \<Rightarrow> Thrown + Buffer" where
  "writeDataLayout offset chunk =
     (case writeUInt32LE 0 0 (Buffer_alloc (4 + 4 + length chunk)) of
        Inl e \<Rightarrow> Inl e
      | Inr d0 \<Rightarrow>
          (case writeUInt32LE offset 4 d0 of
             Inl e \<Rightarrow> Inl e
           | Inr d1 \<Rightarrow> Inr (copy chunk d1 8)))"

text \<open>The write instruction, lines 256 to 266.\<close>

definition writeInstruction :: "PublicKey \<Rightarrow> Keypair \<Rightarrow> Buffer \<Rightarrow> Instruction" where
  "writeInstruction bpfLoader programKeypair dataLayout =
     TransactionInstruction
       [\<lparr>pubkey = publicKey programKeypair, isSigner = True, isWritable = True\<rparr>]
       bpfLoader dataLayout"

text \<open>The payload of the finalize instruction, lines 284 and 285.\<close>

definition finalizeData :: "Thrown + Buffer" where
  "finalizeData = writeUInt32LE 1 0 (Buffer_alloc 4)"

text \<open>The finalize instruction, lines 288 to 305.\<close>

definition finalizeInstruction :: "PublicKey \<Rightarrow> Keypair \<Rightarrow> Buffer \<Rightarrow> Instruction" where
  "finalizeInstruction bpfLoader programKeypair dataLayout =
     TransactionInstruction
       [\<lparr>pubkey = publicKey programKeypair, isSigner = True, isWritable = True\<rparr>,
        \<lparr>pubkey = PublicKey ''SysvarRent111111111111111111111111111111111'',
         isSigner = False, isWritable = False\<rparr>]
       bpfLoader dataLayout"

section \<open>The component and its collaborators\<close>

datatype Status = idle | deploying | success | error

record DeploymentStatus =
  status :: Status
  message :: string
  logs :: "string list"
  programId :: "string option"

datatype FeeLevel = MEDIUM

record FireblocksConnectionAdapterConfig =
  cfg_apiKey :: string
  cfg_apiSecretPath :: string
  cfg_vaultAccountId :: string
  cfg_feeLevel :: FeeLevel
  cfg_silent :: bool
  cfg_devnet :: bool

text \<open>
  What the component holds when the Deploy button is pressed: the three configuration
  values read from the environment (absent or a string), the displayed file name and
  the uploaded bytes (\<open>null\<close> until a file has been read).
\<close>

record Component =
  apiKey :: "string option"
  apiSecretPath :: "string option"
  vaultAccountId :: "string option"
  programPath :: string
  programData :: "Buffer option"

text \<open>
  Everything a run does to the outside, in the order it does it: state updates, toasts,
  console output and the calls on the connection.
\<close>

datatype Event =
    Toast string string Status
  | ConsoleError string
  | StatusSet DeploymentStatus
  | Logged string
  | CreateConnection string FireblocksConnectionAdapterConfig
  | SetTxNote string
  | GetMinimumBalance nat
  | Submitted Transaction
  | Confirmed string

text \<open>
  The state a run threads: the component's live \<^verbatim>\<open>deploymentStatus\<close> (what the
  queued state updates amount to) and the events so far.
\<close>

record World =
  deploymentStatus :: DeploymentStatus
  trace :: "Event list"

text \<open>
  The collaborators, none of which is code of this repository: the ledger library's
  constants and constructors, the Fireblocks connection, the ledger. Each call that can
  throw answers with the thrown value. \<open>ledger\<close> answers a submission, given the events
  before it, with the transaction hash once confirmed or with what
  \<^verbatim>\<open>sendAndConfirmTransaction\<close> throws. \<open>solText\<close> renders
  \<^verbatim>\<open>lamports / LAMPORTS_PER_SOL\<close>.
\<close>

record Env =
  BPF_LOADER_PROGRAM_ID :: PublicKey
  clusterApiUrl :: "string \<Rightarrow> string"
  FireblocksConnectionAdapter_create :: "string \<Rightarrow> FireblocksConnectionAdapterConfig \<Rightarrow> Thrown option"
  getAccount :: "Thrown + PublicKey"
  new_Keypair :: "PublicKey \<Rightarrow> Buffer \<Rightarrow> Thrown option"
  Keypair_generate :: Keypair
  getMinimumBalanceForRentExemption :: "nat \<Rightarrow> Thrown + nat"
  solText :: "nat \<Rightarrow> string"
  partialSign_throws :: "Transaction \<Rightarrow> Keypair \<Rightarrow> Thrown option"
  ledger :: "Event list \<Rightarrow> Transaction \<Rightarrow> Thrown + string"

definition feeLevel :: FeeLevel where
  "feeLevel = MEDIUM"

definition isDevnet :: bool where
  "isDevnet = True"

definition isSilent :: bool where
  "isSilent = False"

text \<open>A number in a template literal: its decimal digits.\<close>

function showNat :: "nat \<Rightarrow> string" where
  "showNat n =
     (if n < 10 then [''0123456789'' ! n]
      else showNat (n div 10) @ [''0123456789'' ! (n mod 10)])"
  by pat_completeness auto
termination
  by (relation "measure (\<lambda>n. n)") auto

declare showNat.simps [simp del]

definition explorerUrl :: "string \<Rightarrow> string" where
  "explorerUrl txHash =
     ''https://explorer.solana.com/tx/'' @ txHash @ ''?cluster=''
       @ (if isDevnet then ''devnet'' else ''mainnet'')"

definition emit :: "Event \<Rightarrow> World \<Rightarrow> World" where
  "emit ev w = w\<lparr>trace := trace w @ [ev]\<rparr>"

text \<open>\<^verbatim>\<open>addLog\<close>, lines 107 to 112: a functional update of the live state.\<close>

definition addLog :: "string \<Rightarrow> World \<Rightarrow> World" where
  "addLog log w =
     emit (Logged log)
       (w\<lparr>deploymentStatus :=
            (deploymentStatus w)\<lparr>logs := logs (deploymentStatus w) @ [log]\<rparr>\<rparr>)"

text \<open>\<^verbatim>\<open>setDeploymentStatus(value)\<close>: the live state is replaced.\<close>

definition setDeploymentStatus :: "DeploymentStatus \<Rightarrow> World \<Rightarrow> World" where
  "setDeploymentStatus s w = emit (StatusSet s) (w\<lparr>deploymentStatus := s\<rparr>)"

definition toast :: "string \<Rightarrow> string \<Rightarrow> Status \<Rightarrow> World \<Rightarrow> World" where
  "toast title description st w = emit (Toast title description st) w"

text \<open>
  \<^verbatim>\<open>sendAndConfirmTransaction(connection, transaction, signers)\<close>: the signers sign,
  the transaction is submitted, and the call returns the hash once the ledger has
  confirmed it, or throws.
\<close>

definition sendAndConfirmTransaction ::
  "Env \<Rightarrow> Transaction \<Rightarrow> Keypair list \<Rightarrow> World \<Rightarrow> World \<times> (Thrown + string)" where
  "sendAndConfirmTransaction env tx signers w =
     (let signed = tx\<lparr>signatures := signatures tx @ map publicKey signers\<rparr>
      in case ledger env (trace w) signed of
           Inl e \<Rightarrow> (emit (Submitted signed) w, Inl e)
         | Inr txHash \<Rightarrow> (emit (Confirmed txHash) (emit (Submitted signed) w), Inr txHash))"

section \<open>deployProgram\<close>

text \<open>The write transaction of one loop iteration, lines 249 to 267.\<close>

definition writeTransaction :: "Env \<Rightarrow> Keypair \<Rightarrow> Buffer \<Rightarrow> Transaction" where
  "writeTransaction env programKeypair dataLayout =
     add (writeInstruction (BPF_LOADER_PROGRAM_ID env) programKeypair dataLayout) new_Transaction"

definition wroteLog :: "nat \<Rightarrow> string \<Rightarrow> string" where
  "wroteLog offset writeTxHash =
     ''Wrote chunk at offset '' @ showNat offset @ '': '' @ explorerUrl writeTxHash"

text \<open>
  The \<^verbatim>\<open>while\<close> loop, lines 246 to 279, from the value \<open>offset\<close> has on entry to
  an iteration. A throw leaves the loop with the state reached.
\<close>

function writeChunks ::
  "Env \<Rightarrow> Keypair \<Rightarrow> Buffer \<Rightarrow> nat \<Rightarrow> World \<Rightarrow> World \<times> (Thrown + unit)" where
  "writeChunks env programKeypair pd offset w =
     (if offset < length pd then
        (case writeDataLayout offset (slice pd offset (offset + chunkSize)) of
           Inl e \<Rightarrow> (w, Inl e)
         | Inr dataLayout \<Rightarrow>
             (case sendAndConfirmTransaction env
                     (writeTransaction env programKeypair dataLayout) [] w of
                (w1, Inl e) \<Rightarrow> (w1, Inl e)
              | (w1, Inr writeTxHash) \<Rightarrow>
                  writeChunks env programKeypair pd (offset + chunkSize)
                    (addLog (wroteLog offset writeTxHash) w1)))
      else (w, Inr ()))"
  by pat_completeness auto
termination
  by (relation "measure (\<lambda>(env, programKeypair, pd, offset, w). length pd - offset)")
     (auto simp: chunkSize_def)

declare writeChunks.simps [simp del]

text \<open>
  The (offset, chunk) pairs the loop goes through when nothing throws: the same guard,
  the same slice, the same increment.
\<close>

function chunksFrom :: "Buffer \<Rightarrow> nat \<Rightarrow> (nat \<times> Buffer) list" where
  "chunksFrom pd offset =
     (if offset < length pd then
        (offset, slice pd offset (offset + chunkSize)) # chunksFrom pd (offset + chunkSize)
      else [])"
  by pat_completeness auto
termination
  by (relation "measure (\<lambda>(pd, offset). length pd - offset)") (auto simp: chunkSize_def)

declare chunksFrom.simps [simp del]

text \<open>
  Lines 130 to 187: the status is reset, the connection created, the payer's key read
  and the program keypair chosen.
\<close>

definition connect ::
  "Env \<Rightarrow> string \<Rightarrow> string \<Rightarrow> string \<Rightarrow> World \<Rightarrow> World \<times> (Thrown + PublicKey \<times> Keypair)" where
  "connect env key secretPath vault w0 =
     (let w1 = setDeploymentStatus
                 \<lparr>status = deploying, message = ''Starting Solana program deployment...'',
                  logs = [''Starting Solana program deployment...''], programId = None\<rparr> w0;
          w2 = addLog ''Configuring Fireblocks connection...'' w1;
          fireblocksConnectionConfig =
            \<lparr>cfg_apiKey = key, cfg_apiSecretPath = secretPath, cfg_vaultAccountId = vault,
             cfg_feeLevel = feeLevel, cfg_silent = isSilent, cfg_devnet = isDevnet\<rparr>;
          w3 = addLog (''Creating connection to Solana ''
                        @ (if isDevnet then ''devnet'' else ''mainnet'') @ ''...'') w2;
          endpoint = (if isDevnet then clusterApiUrl env ''devnet''
                      else clusterApiUrl env ''mainnet-beta'');
          w4 = emit (CreateConnection endpoint fireblocksConnectionConfig) w3
      in case FireblocksConnectionAdapter_create env endpoint fireblocksConnectionConfig of
           Some e \<Rightarrow> (w4, Inl e)
         | None \<Rightarrow>
             (case getAccount env of
                Inl e \<Rightarrow> (w4, Inl e)
              | Inr payerPublicKey \<Rightarrow>
                  (let w5 = addLog (''Deployer account: '' @ toBase58 payerPublicKey) w4
                   in case new_Keypair env payerPublicKey (replicate 64 0) of
                        None \<Rightarrow>
                          (let programKeypair =
                                 \<lparr>publicKey = payerPublicKey, secretKey = replicate 64 0\<rparr>
                           in (addLog (''Using connected wallet as program keypair: ''
                                        @ toBase58 (publicKey programKeypair)) w5,
                               Inr (payerPublicKey, programKeypair)))
                      | Some e \<Rightarrow>
                          (let w6 = addLog ''Unable to use connected wallet as program keypair, generating new one...'' w5;
                               programKeypair = Keypair_generate env
                           in (addLog (''Generated new program keypair: ''
                                        @ toBase58 (publicKey programKeypair)) w6,
                               Inr (payerPublicKey, programKeypair))))))"

text \<open>
  Lines 189 to 239: the program data is checked, the rent queried, the account-creation
  transaction built, signed by the program keypair and sent.
\<close>

definition createProgramAccount ::
  "Env \<Rightarrow> Component \<Rightarrow> PublicKey \<Rightarrow> Keypair \<Rightarrow> World \<Rightarrow> World \<times> (Thrown + Buffer)" where
  "createProgramAccount env c payerPublicKey programKeypair w0 =
     (let w1 = addLog (''Checking program file: '' @ programPath c @ ''...'') w0
      in case programData c of
           None \<Rightarrow>
             (w1, Inl (Thrown ''Program data not available. Please upload a program file.''))
         | Some pd \<Rightarrow>
             (let w2 = addLog (''Program size: '' @ showNat (length pd) @ '' bytes'') w1;
                  w3 = emit (SetTxNote ''Deploying Solana program with Fireblocks Connection Adapter'') w2;
                  w4 = emit (GetMinimumBalance (length pd)) w3
              in case getMinimumBalanceForRentExemption env (length pd) of
                   Inl e \<Rightarrow> (w4, Inl e)
                 | Inr minimumBalanceForRentExemption \<Rightarrow>
                     (let w5 = addLog (''Minimum balance for rent exemption: ''
                                        @ solText env minimumBalanceForRentExemption
                                        @ '' SOL'') w4;
                          w6 = addLog ''Deploying program...'' w5;
                          w7 = addLog ''Creating program account...'' w6;
                          createAccountTransaction =
                            add (SystemProgram_createAccount payerPublicKey
                                   (publicKey programKeypair) minimumBalanceForRentExemption
                                   (length pd) (BPF_LOADER_PROGRAM_ID env))
                              new_Transaction
                      in case partialSign_throws env createAccountTransaction programKeypair of
                           Some e \<Rightarrow> (w7, Inl e)
                         | None \<Rightarrow>
                             (case sendAndConfirmTransaction env
                                     (partialSign programKeypair createAccountTransaction) [] w7 of
                                (w8, Inl e) \<Rightarrow> (w8, Inl e)
                              | (w8, Inr createAccountTxHash) \<Rightarrow>
                                  (addLog (''Program account created: ''
                                            @ explorerUrl createAccountTxHash) w8,
                                   Inr pd)))))"

text \<open>Lines 241 to 279: the announcement, then the loop from offset 0.\<close>

definition writeProgramData ::
  "Env \<Rightarrow> Keypair \<Rightarrow> Buffer \<Rightarrow> World \<Rightarrow> World \<times> (Thrown + unit)" where
  "writeProgramData env programKeypair pd w =
     writeChunks env programKeypair pd 0 (addLog ''Writing program data in chunks...'' w)"

text \<open>The finalize transaction, lines 283 to 306.\<close>

definition finalizeTransaction :: "Env \<Rightarrow> Keypair \<Rightarrow> Buffer \<Rightarrow> Transaction" where
  "finalizeTransaction env programKeypair dataLayout =
     add (finalizeInstruction (BPF_LOADER_PROGRAM_ID env) programKeypair dataLayout)
       new_Transaction"

text \<open>Lines 281 to 316: the finalize transaction is built and sent.\<close>

definition finalizeProgram ::
  "Env \<Rightarrow> Keypair \<Rightarrow> World \<Rightarrow> World \<times> (Thrown + unit)" where
  "finalizeProgram env programKeypair w0 =
     (let w1 = addLog ''Finalizing program...'' w0
      in case finalizeData of
           Inl e \<Rightarrow> (w1, Inl e)
         | Inr dataLayout \<Rightarrow>
             (case sendAndConfirmTransaction env
                     (finalizeTransaction env programKeypair dataLayout) [] w1 of
                (w2, Inl e) \<Rightarrow> (w2, Inl e)
              | (w2, Inr finalizeTxHash) \<Rightarrow>
                  (addLog (''Program finalized: '' @ explorerUrl finalizeTxHash) w2, Inr ())))"

text \<open>
  Lines 318 to 335. \<open>captured\<close> is the \<^verbatim>\<open>deploymentStatus\<close> of the render whose
  \<^verbatim>\<open>deployProgram\<close> is running: the value the closure reads, whatever updates have
  been queued since.
\<close>

definition reportSuccess :: "DeploymentStatus \<Rightarrow> Keypair \<Rightarrow> World \<Rightarrow> World" where
  "reportSuccess captured programKeypair w =
     toast ''Deployment successful''
       (''Program deployed with ID: '' @ toBase58 (publicKey programKeypair)) success
       (setDeploymentStatus
          \<lparr>status = success, message = ''Program deployment completed successfully!'',
           logs = logs captured @ [''Program deployment completed successfully!''],
           programId = Some (toBase58 (publicKey programKeypair))\<rparr> w)"

text \<open>The \<^verbatim>\<open>catch\<close> block, lines 336 to 354.\<close>

fun reportError :: "DeploymentStatus \<Rightarrow> Thrown \<Rightarrow> World \<Rightarrow> World" where
  "reportError captured (Thrown text) w =
     toast ''Deployment failed'' text error
       (setDeploymentStatus
          \<lparr>status = error, message = ''Error deploying program: '' @ text,
           logs = logs captured @ [''Error: '' @ text], programId = None\<rparr>
          (emit (ConsoleError text) w))"

text \<open>The body of the \<^verbatim>\<open>try\<close> block, lines 129 to 335.\<close>

definition tryBlock ::
  "Env \<Rightarrow> Component \<Rightarrow> string \<Rightarrow> string \<Rightarrow> string \<Rightarrow> DeploymentStatus \<Rightarrow> World
     \<Rightarrow> World \<times> (Thrown + unit)" where
  "tryBlock env c key secretPath vault captured w0 =
     (case connect env key secretPath vault w0 of
        (w1, Inl e) \<Rightarrow> (w1, Inl e)
      | (w1, Inr (payerPublicKey, programKeypair)) \<Rightarrow>
          (case createProgramAccount env c payerPublicKey programKeypair w1 of
             (w2, Inl e) \<Rightarrow> (w2, Inl e)
           | (w2, Inr pd) \<Rightarrow>
               (case writeProgramData env programKeypair pd w2 of
                  (w3, Inl e) \<Rightarrow> (w3, Inl e)
                | (w3, Inr u) \<Rightarrow>
                    (case finalizeProgram env programKeypair w3 of
                       (w4, Inl e) \<Rightarrow> (w4, Inl e)
                     | (w4, Inr u) \<Rightarrow> (reportSuccess captured programKeypair w4, Inr ())))))"

text \<open>
  A configuration value passes \<^verbatim>\<open>!value\<close> when it is a non-empty string; the
  program data passes when it is not \<open>null\<close> (a buffer is an object, so an empty one
  passes).
\<close>

fun truthy :: "string option \<Rightarrow> string option" where
  "truthy None = None"
| "truthy (Some s) = (if s = [] then None else Some s)"

text \<open>
  \<^verbatim>\<open>deployProgram\<close>, lines 114 to 355, run from the state \<open>w\<close> of the render in which
  the button was pressed.
\<close>

definition deployProgram :: "Env \<Rightarrow> Component \<Rightarrow> World \<Rightarrow> World" where
  "deployProgram env c w =
     (case (truthy (apiKey c), truthy (apiSecretPath c), truthy (vaultAccountId c),
            programData c) of
        (Some key, Some secretPath, Some vault, Some pd) \<Rightarrow>
          (case tryBlock env c key secretPath vault (deploymentStatus w) w of
             (w1, Inr u) \<Rightarrow> w1
           | (w1, Inl e) \<Rightarrow> reportError (deploymentStatus w) e w1)
      | _ \<Rightarrow>
          toast ''Missing required fields''
            ''Please fill in all required fields and upload a program file'' error w)"

section \<open>Vocabulary for the properties\<close>

text \<open>The transaction a loop iteration submits for the pair (offset, chunk).\<close>

definition submittedWrite :: "Env \<Rightarrow> Keypair \<Rightarrow> nat \<times> Buffer \<Rightarrow> Transaction" where
  "submittedWrite env programKeypair oc =
     writeTransaction env programKeypair (le32 0 @ le32 (fst oc) @ snd oc)"

text \<open>
  The events of one iteration whose transaction is confirmed with hash \<open>h\<close>: the
  submission, the confirmation, the log line.
\<close>

definition confirmedWrite :: "Env \<Rightarrow> Keypair \<Rightarrow> nat \<times> Buffer \<Rightarrow> string \<Rightarrow> Event list" where
  "confirmedWrite env programKeypair oc h =
     [Submitted (submittedWrite env programKeypair oc), Confirmed h,
      Logged (wroteLog (fst oc) h)]"

text \<open>The transactions submitted in a sequence of events, in order.\<close>

fun submissions :: "Event list \<Rightarrow> Transaction list" where
  "submissions [] = []"
| "submissions (Submitted tx # evs) = tx # submissions evs"
| "submissions (ev # evs) = submissions evs"

text \<open>The hashes confirmed in a sequence of events, in order.\<close>

fun confirmations :: "Event list \<Rightarrow> string list" where
  "confirmations [] = []"
| "confirmations (Confirmed h # evs) = h # confirmations evs"
| "confirmations (ev # evs) = confirmations evs"

text \<open>The lines logged in a sequence of events, in order.\<close>

fun logged :: "Event list \<Rightarrow> string list" where
  "logged [] = []"
| "logged (Logged l # evs) = l # logged evs"
| "logged (ev # evs) = logged evs"






section \<open>A sample run\<close>

text \<open>
  Collaborators that never throw: the wallet's key is \<open>Payer\<close>, the rent is one
  lamport, every transaction is confirmed with the hash \<open>sig\<close>.
\<close>

definition sampleEnv :: Env where
  "sampleEnv =
     \<lparr>BPF_LOADER_PROGRAM_ID = PublicKey ''BPFLoader2111111111111111111111111111111111'',
      clusterApiUrl = (\<lambda>cluster. ''https://api.'' @ cluster @ ''.solana.com''),
      FireblocksConnectionAdapter_create = (\<lambda>endpoint config. None),
      getAccount = Inr (PublicKey ''Payer''),
      new_Keypair = (\<lambda>pk sk. None),
      Keypair_generate = \<lparr>publicKey = PublicKey ''Fresh'', secretKey = replicate 64 1\<rparr>,
      getMinimumBalanceForRentExemption = (\<lambda>n. Inr 1),
      solText = (\<lambda>n. ''0.000000001''),
      partialSign_throws = (\<lambda>tx kp. None),
      ledger = (\<lambda>events tx. Inr ''sig'')\<rparr>"

text \<open>
  The same collaborators, but the ledger rejects the submission that follows the
  \<open>k\<close>-th confirmation.
\<close>

definition rejectingEnv :: "nat \<Rightarrow> Env" where
  "rejectingEnv k =
     sampleEnv\<lparr>ledger := (\<lambda>events tx.
        if length (confirmations events) = k then Inl (Thrown ''boom'') else Inr ''sig'')\<rparr>"


definition sampleKeypair :: Keypair where
  "sampleKeypair = \<lparr>publicKey = PublicKey ''Payer'', secretKey = replicate 64 0\<rparr>"

text \<open>A configured component holding the given program data.\<close>

definition sampleComponent :: "Buffer option \<Rightarrow> Component" where
  "sampleComponent pd =
     \<lparr>apiKey = Some ''key'', apiSecretPath = Some ''secret.pem'', vaultAccountId = Some ''0'',
      programPath = ''program.so'', programData = pd\<rparr>"

text \<open>The first render: the initial \<^verbatim>\<open>deploymentStatus\<close>, nothing done yet.\<close>

definition idleWorld :: World where
  "idleWorld =
     \<lparr>deploymentStatus = \<lparr>status = idle, message = [], logs = [], programId = None\<rparr>,
      trace = []\<rparr>"

section \<open>Payload layout\<close>

lemma writeDataLayout_eq:
  "writeDataLayout offset chunk =
     (if 4294967295 < offset then Inl (Thrown ''RangeError: value out of range'')
      else Inr (le32 0 @ le32 offset @ chunk))"
  by (simp add: writeDataLayout_def writeUInt32LE_def Buffer_alloc_def copy_def le32_def)

lemma le32_digits:
  fixes v :: nat
  assumes "v < 4294967296"
  shows "v mod 256 + 256 * (v div 256 mod 256) + 65536 * (v div 65536 mod 256)
        + 16777216 * (v div 16777216 mod 256) = v"
proof -
  have d2: "v div 65536 = v div 256 div 256"
    by (simp add: div_mult2_eq[symmetric])
  have d3: "v div 16777216 = v div 256 div 256 div 256"
    by (simp add: div_mult2_eq[symmetric])
  have small: "v div 256 div 256 div 256 < 256"
    using assms by (simp add: div_mult2_eq[symmetric] less_mult_imp_div_less)
  define a where "a = v div 256"
  define b where "b = a div 256"
  define c where "c = b div 256"
  have v: "v = v mod 256 + 256 * a" by (simp add: a_def)
  have a: "a = a mod 256 + 256 * b" by (simp add: b_def)
  have b: "b = b mod 256 + 256 * c" by (simp add: c_def)
  have c: "c mod 256 = c" using small by (simp add: a_def b_def c_def)
  have "v mod 256 + 256 * (a mod 256) + 65536 * (b mod 256) + 16777216 * (c mod 256)
      = v mod 256 + 256 * (a mod 256 + 256 * (b mod 256 + 256 * c))"
    by (simp add: c algebra_simps)
  also have "\<dots> = v" using v a b by simp
  finally show ?thesis by (simp add: d2 d3 a_def b_def c_def)
qed

lemma readUInt32LE_le32:
  assumes "v < 4294967296"
  shows "readUInt32LE (pre @ le32 v @ post) (length pre) = v"
proof -
  have b0: "unat (of_nat v :: byte) = v mod 256"
    by (simp add: unat_of_nat)
  have b1: "unat (of_nat (v div 256) :: byte) = v div 256 mod 256"
    by (simp add: unat_of_nat)
  have b2: "unat (of_nat (v div 65536) :: byte) = v div 65536 mod 256"
    by (simp add: unat_of_nat)
  have b3: "unat (of_nat (v div 16777216) :: byte) = v div 16777216 mod 256"
    by (simp add: unat_of_nat)
  have "readUInt32LE (pre @ le32 v @ post) (length pre)
      = v mod 256 + 256 * (v div 256 mod 256) + 65536 * (v div 65536 mod 256)
        + 16777216 * (v div 16777216 mod 256)"
    by (simp add: readUInt32LE_def le32_def nth_append b0 b1 b2 b3)
  also have "\<dots> = v"
    using assms by (rule le32_digits)
  finally show ?thesis .
qed

lemma world_simps:
  "trace (emit ev w) = trace w @ [ev]"
  "deploymentStatus (emit ev w) = deploymentStatus w"
  "trace (addLog l w) = trace w @ [Logged l]"
  "deploymentStatus (addLog l w) = (deploymentStatus w)\<lparr>logs := logs (deploymentStatus w) @ [l]\<rparr>"
  "trace (setDeploymentStatus s w) = trace w @ [StatusSet s]"
  "deploymentStatus (setDeploymentStatus s w) = s"
  "trace (toast t d st w) = trace w @ [Toast t d st]"
  "deploymentStatus (toast t d st w) = deploymentStatus w"
  by (simp_all add: emit_def addLog_def setDeploymentStatus_def toast_def)

text \<open>
  Claim C4. For every offset and chunk, the payload that the loop builds for the write is
  the four bytes of the discriminant 0, least significant first, then the four bytes of
  the offset, then the chunk: 8 bytes more than the chunk, from which reading at 4 gives
  the offset back and dropping 8 gives the chunk back. The instruction of the write
  transaction carries that payload and one account key, the program keypair's public
  key, marked signer and writable. The payload is built exactly when the offset fits in
  32 bits; beyond that \<^verbatim>\<open>writeUInt32LE\<close> throws and nothing is built.
\<close>

theorem write_instruction_layout:
  "(case writeDataLayout offset chunk of
      Inl e \<Rightarrow> 4294967295 < offset
    | Inr dataLayout \<Rightarrow>
        offset \<le> 4294967295
        \<and> dataLayout = le32 0 @ le32 offset @ chunk
        \<and> length dataLayout = 8 + length chunk
        \<and> readUInt32LE dataLayout 0 = 0
        \<and> readUInt32LE dataLayout 4 = offset
        \<and> drop 8 dataLayout = chunk
        \<and> instructions (writeTransaction env programKeypair dataLayout)
            = [TransactionInstruction
                 [\<lparr>pubkey = publicKey programKeypair, isSigner = True, isWritable = True\<rparr>]
                 (BPF_LOADER_PROGRAM_ID env) dataLayout])"
proof (cases "4294967295 < offset")
  case True
  then show ?thesis
    by (simp add: writeDataLayout_eq)
next
  case False
  then have small: "offset < 4294967296"
    by simp
  have r0: "readUInt32LE (le32 0 @ le32 offset @ chunk) 0 = 0"
    using readUInt32LE_le32 [of 0 "[]" "le32 offset @ chunk"] by simp
  have l4: "length (le32 0) = 4"
    by (simp add: le32_def)
  have r4: "readUInt32LE (le32 0 @ le32 offset @ chunk) 4 = offset"
    using readUInt32LE_le32 [OF small, of "le32 0" chunk] unfolding l4 .
  have len: "length (le32 0 @ le32 offset @ chunk) = 8 + length chunk"
    by (simp add: le32_def)
  have dr: "drop 8 (le32 0 @ le32 offset @ chunk) = chunk"
    by (simp add: le32_def)
  show ?thesis
    using False r0 r4 len dr
    by (simp add: writeDataLayout_eq writeTransaction_def writeInstruction_def add_def
        new_Transaction_def)
qed

text \<open>
  Claim C5. The payload of the finalize instruction is the four bytes 1, 0, 0, 0 and
  nothing else. The finalize transaction holds one instruction with two account keys in
  this order: the program keypair's public key, signer and writable, and the rent sysvar
  \<^verbatim>\<open>SysvarRent111111111111111111111111111111111\<close>, neither signer nor writable. It is
  the transaction that \<^verbatim>\<open>deployProgram\<close> submits right after the line
  \<^verbatim>\<open>Finalizing program...\<close>.
\<close>

theorem finalize_instruction_layout:
  "finalizeData = Inr [1, 0, 0, 0]
   \<and> finalizeTransaction env programKeypair [1, 0, 0, 0]
       = \<lparr>instructions =
            [TransactionInstruction
               [\<lparr>pubkey = publicKey programKeypair, isSigner = True, isWritable = True\<rparr>,
                \<lparr>pubkey = PublicKey ''SysvarRent111111111111111111111111111111111'',
                 isSigner = False, isWritable = False\<rparr>]
               (BPF_LOADER_PROGRAM_ID env) [1, 0, 0, 0]],
          signatures = []\<rparr>
   \<and> take 2 (drop (length (trace w)) (trace (fst (finalizeProgram env programKeypair w))))
       = [Logged ''Finalizing program...'',
          Submitted (finalizeTransaction env programKeypair [1, 0, 0, 0])]"
proof -
  have d: "finalizeData = Inr [1, 0, 0, 0]"
    by (simp add: finalizeData_def writeUInt32LE_def Buffer_alloc_def)
  have t: "finalizeTransaction env programKeypair [1, 0, 0, 0]
       = \<lparr>instructions =
            [TransactionInstruction
               [\<lparr>pubkey = publicKey programKeypair, isSigner = True, isWritable = True\<rparr>,
                \<lparr>pubkey = PublicKey ''SysvarRent111111111111111111111111111111111'',
                 isSigner = False, isWritable = False\<rparr>]
               (BPF_LOADER_PROGRAM_ID env) [1, 0, 0, 0]],
          signatures = []\<rparr>"
    by (simp add: finalizeTransaction_def finalizeInstruction_def add_def new_Transaction_def)
  have s: "take 2 (drop (length (trace w)) (trace (fst (finalizeProgram env programKeypair w))))
       = [Logged ''Finalizing program...'',
          Submitted (finalizeTransaction env programKeypair [1, 0, 0, 0])]"
    by (simp add: finalizeProgram_def d sendAndConfirmTransaction_def world_simps t Let_def
        split: sum.splits)
  from d t s show ?thesis
    by (intro conjI)
qed

section \<open>The chunks of the loop\<close>

lemma chunkSize_pos: "0 < chunkSize"
  by (simp add: chunkSize_def)

lemma mult_fit:
  fixes c :: nat
  assumes "n = c * k" "0 < n" "n \<le> c"
  shows "n = c"
proof (cases k)
  case 0
  with assms show ?thesis by simp
next
  case (Suc j)
  with assms have "c + c * j \<le> c" by simp
  then have "c * j = 0" by simp
  with Suc assms show ?thesis by simp
qed

lemma chunksFrom_Nil: "\<not> offset < length pd \<Longrightarrow> chunksFrom pd offset = []"
  by (subst chunksFrom.simps) simp

lemma chunksFrom_Cons:
  "offset < length pd \<Longrightarrow>
     chunksFrom pd offset
       = (offset, slice pd offset (offset + chunkSize)) # chunksFrom pd (offset + chunkSize)"
  by (subst chunksFrom.simps) simp

lemma slice_length: "length (slice pd a b) = min b (length pd) - a"
  by (simp add: slice_def min.commute)

lemma slice_append_drop:
  assumes "a \<le> b"
  shows "slice pd a b @ drop b pd = drop a pd"
proof -
  have "drop a pd = drop a (take b pd @ drop b pd)"
    by simp
  also have "\<dots> = drop a (take b pd) @ drop (a - length (take b pd)) (drop b pd)"
    by (rule drop_append)
  also have "drop (a - length (take b pd)) (drop b pd) = drop b pd"
    using assms by (cases "b \<le> length pd") (simp_all add: min_def)
  finally show ?thesis
    by (simp add: slice_def)
qed

lemma chunksFrom_concat: "concat (map snd (chunksFrom pd offset)) = drop offset pd"
proof (induction pd offset rule: chunksFrom.induct)
  case (1 pd offset)
  show ?case
  proof (cases "offset < length pd")
    case True
    then have "concat (map snd (chunksFrom pd offset))
        = slice pd offset (offset + chunkSize) @ drop (offset + chunkSize) pd"
      using "1.IH" by (subst chunksFrom.simps) simp
    then show ?thesis
      by (simp add: slice_append_drop)
  next
    case False
    then show ?thesis
      by (subst chunksFrom.simps) simp
  qed
qed

lemma chunksFrom_offsets:
  "map fst (chunksFrom pd offset)
     = map (\<lambda>i. offset + i * chunkSize) [0..<length (chunksFrom pd offset)]"
proof (induction pd offset rule: chunksFrom.induct)
  case (1 pd offset)
  show ?case
  proof (cases "offset < length pd")
    case True
    define rest where "rest = chunksFrom pd (offset + chunkSize)"
    have unfold: "chunksFrom pd offset = (offset, slice pd offset (offset + chunkSize)) # rest"
      using True by (subst chunksFrom.simps) (simp add: rest_def)
    have ih: "map fst rest = map (\<lambda>i. offset + chunkSize + i * chunkSize) [0..<length rest]"
      using "1.IH" [OF True] by (simp add: rest_def)
    have "map (\<lambda>i. offset + i * chunkSize) [0..<Suc (length rest)]
        = offset # map (\<lambda>i. offset + i * chunkSize) (map Suc [0..<length rest])"
      by (simp only: map_Suc_upt upt_conv_Cons [of 0 "Suc (length rest)"]) simp
    also have "\<dots> = offset # map fst rest"
      by (simp add: ih comp_def add.assoc)
    finally show ?thesis
      by (simp add: unfold)
  next
    case False
    then show ?thesis
      by (simp add: chunksFrom_Nil)
  qed
qed

lemma chunksFrom_length:
  "length (chunksFrom pd offset) = (length pd - offset + (chunkSize - 1)) div chunkSize"
proof (induction pd offset rule: chunksFrom.induct)
  case (1 pd offset)
  show ?case
  proof (cases "offset < length pd")
    case True
    have unfold: "length (chunksFrom pd offset) = Suc (length (chunksFrom pd (offset + chunkSize)))"
      using True by (subst chunksFrom.simps) simp
    have ih: "length (chunksFrom pd (offset + chunkSize))
        = (length pd - (offset + chunkSize) + (chunkSize - 1)) div chunkSize"
      using "1.IH" [OF True] .
    show ?thesis
    proof (cases "offset + chunkSize \<le> length pd")
      case True
      define a where "a = length pd - (offset + chunkSize) + (chunkSize - 1)"
      have "length pd - offset + (chunkSize - 1) = a + chunkSize"
        using True by (simp add: a_def)
      moreover have "(a + chunkSize) div chunkSize = Suc (a div chunkSize)"
        using chunkSize_pos by (simp add: div_add_self2)
      ultimately show ?thesis
        by (simp only: unfold ih a_def)
    next
      case False
      define n where "n = length pd - offset"
      have n: "0 < n" "n < chunkSize"
        using False \<open>offset < length pd\<close> by (simp_all add: n_def)
      have "n + (chunkSize - 1) = (n - 1) + chunkSize"
        using n by simp
      moreover have "((n - 1) + chunkSize) div chunkSize = Suc ((n - 1) div chunkSize)"
        using chunkSize_pos by (simp add: div_add_self2)
      moreover have "(n - 1) div chunkSize = 0"
        using n by simp
      ultimately have "(length pd - offset + (chunkSize - 1)) div chunkSize = 1"
        by (simp add: n_def)
      moreover have "length pd - (offset + chunkSize) = 0"
        using False by simp
      then have "(length pd - (offset + chunkSize) + (chunkSize - 1)) div chunkSize = 0"
        using chunkSize_pos by simp
      ultimately show ?thesis
        by (simp only: unfold ih)
    qed
  next
    case False
    then have "length pd - offset = 0"
      by simp
    with False show ?thesis
      using chunkSize_pos by (subst chunksFrom.simps) simp
  qed
qed

lemma chunksFrom_member:
  "(off, chunk) \<in> set (chunksFrom pd offset) \<Longrightarrow>
     offset \<le> off \<and> off < length pd \<and> chunk = slice pd off (off + chunkSize)"
proof (induction pd offset rule: chunksFrom.induct)
  case (1 pd offset)
  show ?case
  proof (cases "offset < length pd")
    case True
    from "1.prems" have "(off, chunk) = (offset, slice pd offset (offset + chunkSize))
        \<or> (off, chunk) \<in> set (chunksFrom pd (offset + chunkSize))"
      using True by (subst (asm) chunksFrom.simps) simp
    then show ?thesis
      using "1.IH" [OF True] True by auto
  next
    case False
    with "1.prems" show ?thesis
      by (subst (asm) chunksFrom.simps) simp
  qed
qed

lemma chunksFrom_chunk_length:
  assumes "(off, chunk) \<in> set (chunksFrom pd offset)"
  shows "0 < length chunk \<and> length chunk \<le> chunkSize"
proof -
  from chunksFrom_member [OF assms]
  have "off < length pd" and "chunk = slice pd off (off + chunkSize)"
    by simp_all
  then show ?thesis
    using chunkSize_pos by (auto simp: slice_length min_def)
qed

lemma chunksFrom_last:
  "offset < length pd \<Longrightarrow> chunkSize dvd (length pd - offset) \<Longrightarrow>
     length (snd (last (chunksFrom pd offset))) = chunkSize"
proof (induction pd offset rule: chunksFrom.induct)
  case (1 pd offset)
  have unfold: "chunksFrom pd offset
      = (offset, slice pd offset (offset + chunkSize)) # chunksFrom pd (offset + chunkSize)"
    using "1.prems"(1) by (subst chunksFrom.simps) simp
  from "1.prems"(2) obtain k where k: "length pd - offset = chunkSize * k"
    by (auto simp: dvd_def)
  have kpos: "0 < k"
    using k "1.prems"(1) by (cases k) auto
  show ?case
  proof (cases "offset + chunkSize < length pd")
    case True
    then have "chunksFrom pd (offset + chunkSize) \<noteq> []"
      by (subst chunksFrom.simps) simp
    moreover have "chunkSize dvd (length pd - (offset + chunkSize))"
    proof -
      have "length pd - (offset + chunkSize) = chunkSize * (k - 1)"
        using k by (simp add: right_diff_distrib')
      then show ?thesis by simp
    qed
    ultimately show ?thesis
      using "1.IH" [OF "1.prems"(1) True] by (simp add: unfold)
  next
    case False
    then have "chunksFrom pd (offset + chunkSize) = []"
      by (subst chunksFrom.simps) simp
    moreover have "length pd - offset = chunkSize"
    proof (rule mult_fit [OF k])
      show "0 < length pd - offset"
        using "1.prems"(1) by simp
      show "length pd - offset \<le> chunkSize"
        using False by simp
    qed
    ultimately show ?thesis
      using "1.prems"(1) by (simp add: unfold slice_length min_def)
  qed
qed


section \<open>The events of the loop\<close>

lemma writeChunks_done:
  "\<not> offset < length pd \<Longrightarrow> writeChunks env kp pd offset w = (w, Inr ())"
  by (subst writeChunks.simps) simp

lemma writeChunks_range:
  "offset < length pd \<Longrightarrow> 4294967295 < offset \<Longrightarrow>
     writeChunks env kp pd offset w = (w, Inl (Thrown ''RangeError: value out of range''))"
  by (subst writeChunks.simps) (simp add: writeDataLayout_eq)

lemma writeChunks_rejected:
  assumes "offset < length pd" "offset \<le> 4294967295"
    and "ledger env (trace w)
           (submittedWrite env kp (offset, slice pd offset (offset + chunkSize))) = Inl e"
  shows "writeChunks env kp pd offset w
     = (emit (Submitted (submittedWrite env kp (offset, slice pd offset (offset + chunkSize)))) w,
        Inl e)"
proof -
  have "signatures (writeTransaction env kp d) = []" for d
    by (simp add: writeTransaction_def add_def new_Transaction_def)
  then have same: "(writeTransaction env kp d)\<lparr>signatures := signatures (writeTransaction env kp d) @ []\<rparr>
      = writeTransaction env kp d" for d
    by simp
  show ?thesis
    using assms
    by (subst writeChunks.simps)
       (simp add: writeDataLayout_eq sendAndConfirmTransaction_def submittedWrite_def same)
qed

lemma writeChunks_confirmed:
  assumes "offset < length pd" "offset \<le> 4294967295"
    and "ledger env (trace w)
           (submittedWrite env kp (offset, slice pd offset (offset + chunkSize))) = Inr h"
  shows "writeChunks env kp pd offset w
     = writeChunks env kp pd (offset + chunkSize)
         (addLog (wroteLog offset h)
            (emit (Confirmed h)
               (emit (Submitted (submittedWrite env kp
                                   (offset, slice pd offset (offset + chunkSize)))) w)))"
proof -
  have same: "(writeTransaction env kp d)\<lparr>signatures := signatures (writeTransaction env kp d) @ []\<rparr>
      = writeTransaction env kp d" for d
    by simp
  show ?thesis
    using assms
    by (subst writeChunks.simps)
       (simp add: writeDataLayout_eq sendAndConfirmTransaction_def submittedWrite_def same)
qed


lemma writeChunks_run:
  "\<exists>n hs rest.
     length hs = n \<and> n \<le> length (chunksFrom pd offset)
     \<and> trace (fst (writeChunks env kp pd offset w))
         = trace w @ concat (map2 (confirmedWrite env kp) (take n (chunksFrom pd offset)) hs)
           @ rest
     \<and> deploymentStatus (fst (writeChunks env kp pd offset w))
         = (deploymentStatus w)
             \<lparr>logs := logs (deploymentStatus w)
                @ map2 (\<lambda>oc. wroteLog (fst oc)) (take n (chunksFrom pd offset)) hs\<rparr>
     \<and> (case snd (writeChunks env kp pd offset w) of
           Inr u \<Rightarrow> n = length (chunksFrom pd offset) \<and> rest = []
         | Inl e \<Rightarrow>
             n < length (chunksFrom pd offset)
             \<and> (if 4294967295 < fst (chunksFrom pd offset ! n) then rest = []
                else rest = [Submitted (submittedWrite env kp (chunksFrom pd offset ! n))]))"
proof (induction pd offset arbitrary: w rule: chunksFrom.induct)
  case (1 pd offset)
  let ?c = "(offset, slice pd offset (offset + chunkSize))"
  let ?tx = "submittedWrite env kp ?c"
  show ?case
  proof (cases "offset < length pd")
    case False
    then show ?thesis
      by (intro exI [of _ 0] exI [of _ "[]"]) (simp add: writeChunks_done chunksFrom_Nil)
  next
    case inside: True
    note cs = chunksFrom_Cons [OF inside]
    show ?thesis
    proof (cases "4294967295 < offset")
      case True
      then show ?thesis
        by (intro exI [of _ 0] exI [of _ "[]"])
           (simp add: writeChunks_range [OF inside True] cs)
    next
      case False
      then have fits: "offset \<le> 4294967295"
        by simp
      show ?thesis
      proof (cases "ledger env (trace w) ?tx")
        case (Inl e)
        show ?thesis
          using False
          by (intro exI [of _ 0] exI [of _ "[]"] exI [of _ "[Submitted ?tx]"])
             (simp add: writeChunks_rejected [OF inside fits Inl] cs world_simps)
      next
        case (Inr h)
        define w' where "w' = addLog (wroteLog offset h) (emit (Confirmed h) (emit (Submitted ?tx) w))"
        have step: "writeChunks env kp pd offset w = writeChunks env kp pd (offset + chunkSize) w'"
          unfolding w'_def by (rule writeChunks_confirmed [OF inside fits Inr])
        have tr: "trace w' = trace w @ confirmedWrite env kp ?c h"
          by (simp add: w'_def world_simps confirmedWrite_def)
        have st: "deploymentStatus w'
            = (deploymentStatus w)\<lparr>logs := logs (deploymentStatus w) @ [wroteLog offset h]\<rparr>"
          by (simp add: w'_def world_simps)
        let ?rest_cs = "chunksFrom pd (offset + chunkSize)"
        from "1.IH" [OF inside, of w'] obtain n hs rest where
          len: "length hs = n" "n \<le> length ?rest_cs"
          and t: "trace (fst (writeChunks env kp pd (offset + chunkSize) w'))
              = trace w' @ concat (map2 (confirmedWrite env kp) (take n ?rest_cs) hs) @ rest"
          and s: "deploymentStatus (fst (writeChunks env kp pd (offset + chunkSize) w'))
              = (deploymentStatus w')
                  \<lparr>logs := logs (deploymentStatus w')
                     @ map2 (\<lambda>oc. wroteLog (fst oc)) (take n ?rest_cs) hs\<rparr>"
          and r: "(case snd (writeChunks env kp pd (offset + chunkSize) w') of
                Inr u \<Rightarrow> n = length ?rest_cs \<and> rest = []
              | Inl e \<Rightarrow>
                  n < length ?rest_cs
                  \<and> (if 4294967295 < fst (?rest_cs ! n) then rest = []
                     else rest = [Submitted (submittedWrite env kp (?rest_cs ! n))]))"
          by blast
        have "length (h # hs) = Suc n"
          using len by simp
        moreover have "Suc n \<le> length (chunksFrom pd offset)"
          using len by (simp add: cs)
        moreover have "trace (fst (writeChunks env kp pd offset w))
            = trace w @ concat (map2 (confirmedWrite env kp)
                                  (take (Suc n) (chunksFrom pd offset)) (h # hs)) @ rest"
          by (simp add: step t tr cs)
        moreover have "deploymentStatus (fst (writeChunks env kp pd offset w))
            = (deploymentStatus w)
                \<lparr>logs := logs (deploymentStatus w)
                   @ map2 (\<lambda>oc. wroteLog (fst oc)) (take (Suc n) (chunksFrom pd offset)) (h # hs)\<rparr>"
          by (simp add: step s st cs)
        moreover have "(case snd (writeChunks env kp pd offset w) of
              Inr u \<Rightarrow> Suc n = length (chunksFrom pd offset) \<and> rest = []
            | Inl e \<Rightarrow>
                Suc n < length (chunksFrom pd offset)
                \<and> (if 4294967295 < fst (chunksFrom pd offset ! Suc n) then rest = []
                   else rest = [Submitted (submittedWrite env kp (chunksFrom pd offset ! Suc n))]))"
          using r by (simp add: step cs split: sum.splits)
        ultimately show ?thesis
          by blast
      qed
    qed
  qed
qed


section \<open>Chunking and sequencing\<close>


lemma confirmations_append: "confirmations (xs @ ys) = confirmations xs @ confirmations ys"
  by (induction xs rule: confirmations.induct) simp_all

lemma logged_append: "logged (xs @ ys) = logged xs @ logged ys"
  by (induction xs rule: logged.induct) simp_all

lemma submissions_confirmedWrites:
  "length hs = length cs \<Longrightarrow>
     submissions (concat (map2 (confirmedWrite env kp) cs hs)) = map (submittedWrite env kp) cs"
  by (induction hs cs rule: list_induct2) (simp_all add: confirmedWrite_def)

lemma chunksFrom_sum:
  "sum_list (map (\<lambda>c. length (snd c)) (chunksFrom pd offset)) = length pd - offset"
proof -
  have "length (concat (map snd (chunksFrom pd offset))) = length (drop offset pd)"
    by (simp only: chunksFrom_concat)
  then show ?thesis
    by (simp add: length_concat comp_def)
qed

lemma chunksFrom_sorted: "sorted_wrt (<) (map fst (chunksFrom pd offset))"
proof -
  have "sorted_wrt (<) (map (\<lambda>i. offset + i * chunkSize) [0..<n])" for n
    using chunkSize_pos by (simp add: sorted_wrt_map sorted_wrt_iff_nth_less)
  then show ?thesis
    by (subst chunksFrom_offsets) simp
qed

text \<open>
  Claim C1. For every non-empty program blob, the pairs (offset, chunk) that the loop of
  \<^verbatim>\<open>deployProgram\<close> goes through with its limit of 900 bytes have the offsets
  0, 900, 1800, ...; every chunk is the slice of the blob at its offset, is not empty and
  has at most 900 bytes; the lengths sum to the length of the blob and the chunks, put
  together in order, are the blob. There are \<open>(L + 899) div 900\<close> chunks for a blob of
  \<open>L\<close> bytes; when 900 divides \<open>L\<close> the last chunk has exactly 900 bytes and there are
  \<open>L div 900\<close> chunks, so none is empty. When the loop ends without a throw, the write
  transactions it has submitted are those of these chunks, in this order.
\<close>

theorem chunk_partition:
  assumes "pd \<noteq> []"
  shows "map fst (chunksFrom pd 0) = map (\<lambda>i. i * 900) [0..<length (chunksFrom pd 0)]
    \<and> (\<forall>c \<in> set (chunksFrom pd 0).
          0 < length (snd c) \<and> length (snd c) \<le> 900
          \<and> snd c = slice pd (fst c) (fst c + 900))
    \<and> sum_list (map (\<lambda>c. length (snd c)) (chunksFrom pd 0)) = length pd
    \<and> concat (map snd (chunksFrom pd 0)) = pd
    \<and> length (chunksFrom pd 0) = (length pd + 899) div 900
    \<and> (900 dvd length pd \<longrightarrow>
          length (snd (last (chunksFrom pd 0))) = 900
          \<and> length (chunksFrom pd 0) = length pd div 900)
    \<and> (snd (writeChunks env kp pd 0 w) = Inr () \<longrightarrow>
          submissions (drop (length (trace w)) (trace (fst (writeChunks env kp pd 0 w))))
            = map (submittedWrite env kp) (chunksFrom pd 0))"
proof (intro conjI ballI impI)
  show "map fst (chunksFrom pd 0) = map (\<lambda>i. i * 900) [0..<length (chunksFrom pd 0)]"
    using chunksFrom_offsets [of pd 0] by (simp add: chunkSize_def)
next
  fix c assume c: "c \<in> set (chunksFrom pd 0)"
  then have m: "(fst c, snd c) \<in> set (chunksFrom pd 0)"
    by simp
  from chunksFrom_chunk_length [OF m] show "0 < length (snd c)" and "length (snd c) \<le> 900"
    by (simp_all add: chunkSize_def)
  from chunksFrom_member [OF m] show "snd c = slice pd (fst c) (fst c + 900)"
    by (simp add: chunkSize_def)
next
  show "sum_list (map (\<lambda>c. length (snd c)) (chunksFrom pd 0)) = length pd"
    by (simp add: chunksFrom_sum)
next
  show "concat (map snd (chunksFrom pd 0)) = pd"
    by (simp add: chunksFrom_concat)
next
  show "length (chunksFrom pd 0) = (length pd + 899) div 900"
    by (simp add: chunksFrom_length chunkSize_def)
next
  assume d: "900 dvd length pd"
  from assms have "0 < length pd"
    by simp
  then show "length (snd (last (chunksFrom pd 0))) = 900"
    using chunksFrom_last [of 0 pd] d by (simp add: chunkSize_def)
next
  assume d: "900 dvd length pd"
  then obtain k where k: "length pd = 900 * k"
    by (auto simp: dvd_def)
  have "(900 * k + 899) div 900 = k"
    by (simp add: div_mult_self4 [of 900 k 899, simplified])
  then show "length (chunksFrom pd 0) = length pd div 900"
    by (simp add: chunksFrom_length chunkSize_def k)
next
  assume ok: "snd (writeChunks env kp pd 0 w) = Inr ()"
  from writeChunks_run [of pd 0 env kp w] obtain n hs rest where
    len: "length hs = n"
    and t: "trace (fst (writeChunks env kp pd 0 w))
        = trace w @ concat (map2 (confirmedWrite env kp) (take n (chunksFrom pd 0)) hs) @ rest"
    and r: "(case snd (writeChunks env kp pd 0 w) of
          Inr u \<Rightarrow> n = length (chunksFrom pd 0) \<and> rest = []
        | Inl e \<Rightarrow>
            n < length (chunksFrom pd 0)
            \<and> (if 4294967295 < fst (chunksFrom pd 0 ! n) then rest = []
               else rest = [Submitted (submittedWrite env kp (chunksFrom pd 0 ! n))]))"
    by blast
  from r ok have n: "n = length (chunksFrom pd 0)" and rest: "rest = []"
    by simp_all
  show "submissions (drop (length (trace w)) (trace (fst (writeChunks env kp pd 0 w))))
      = map (submittedWrite env kp) (chunksFrom pd 0)"
    using len by (simp add: t rest n submissions_confirmedWrites)
qed

lemma sample_chunks:
  "chunksFrom (replicate 1800 7) 0 = [(0, replicate 900 7), (900, replicate 900 7)]"
  by (simp add: chunksFrom.simps slice_def chunkSize_def)

lemma sample_writeChunks:
  "snd (writeChunks sampleEnv sampleKeypair (replicate 1800 7) 0 idleWorld) = Inr ()"
  by (simp add: writeChunks.simps writeDataLayout_eq sendAndConfirmTransaction_def sampleEnv_def
      chunkSize_def Let_def)

theorem chunk_partition_witness:
  "replicate 1800 (7 :: byte) \<noteq> []
   \<and> 900 dvd length (replicate 1800 (7 :: byte))
   \<and> snd (writeChunks sampleEnv sampleKeypair (replicate 1800 7) 0 idleWorld) = Inr ()
   \<and> map fst (chunksFrom (replicate 1800 7) 0) = [0, 900]
   \<and> concat (map snd (chunksFrom (replicate 1800 7) 0)) = replicate 1800 7
   \<and> length (snd (last (chunksFrom (replicate 1800 7) 0))) = 900
   \<and> length (chunksFrom (replicate 1800 7) 0) = 2
   \<and> submissions (drop (length (trace idleWorld))
         (trace (fst (writeChunks sampleEnv sampleKeypair (replicate 1800 7) 0 idleWorld))))
       = [submittedWrite sampleEnv sampleKeypair (0, replicate 900 7),
          submittedWrite sampleEnv sampleKeypair (900, replicate 900 7)]"
proof -
  have ne: "replicate 1800 (7 :: byte) \<noteq> []"
    by simp
  have dv: "900 dvd length (replicate 1800 (7 :: byte))"
    by simp
  show ?thesis
    using chunk_partition [OF ne, of sampleEnv sampleKeypair idleWorld] dv sample_writeChunks
    by (simp add: sample_chunks slice_def)
qed

text \<open>
  Claim C2. The events of the write phase are the announcement, then for the first \<open>n\<close>
  chunks in order a block of three events each (the submission of the chunk's
  transaction, its confirmation, the log line of that write), then nothing more when
  all chunks were written, or at most the one submission that threw. So the transaction
  of a chunk is submitted only after the log line of the chunk before it, and the
  offsets ascend.
\<close>

theorem writes_strictly_sequential:
  "\<exists>n hs rest.
     length hs = n \<and> n \<le> length (chunksFrom pd 0)
     \<and> trace (fst (writeProgramData env kp pd w))
         = trace w @ [Logged ''Writing program data in chunks...'']
           @ concat (map2 (confirmedWrite env kp) (take n (chunksFrom pd 0)) hs) @ rest
     \<and> (case snd (writeProgramData env kp pd w) of
           Inr u \<Rightarrow> n = length (chunksFrom pd 0) \<and> rest = []
         | Inl e \<Rightarrow>
             n < length (chunksFrom pd 0)
             \<and> (if 4294967295 < fst (chunksFrom pd 0 ! n) then rest = []
                else rest = [Submitted (submittedWrite env kp (chunksFrom pd 0 ! n))]))
     \<and> sorted_wrt (<) (map fst (chunksFrom pd 0))"
proof -
  let ?w = "addLog ''Writing program data in chunks...'' w"
  from writeChunks_run [of pd 0 env kp ?w] obtain n hs rest where
    "length hs = n" "n \<le> length (chunksFrom pd 0)"
    "trace (fst (writeChunks env kp pd 0 ?w))
        = trace ?w @ concat (map2 (confirmedWrite env kp) (take n (chunksFrom pd 0)) hs) @ rest"
    "(case snd (writeChunks env kp pd 0 ?w) of
          Inr u \<Rightarrow> n = length (chunksFrom pd 0) \<and> rest = []
        | Inl e \<Rightarrow>
            n < length (chunksFrom pd 0)
            \<and> (if 4294967295 < fst (chunksFrom pd 0 ! n) then rest = []
               else rest = [Submitted (submittedWrite env kp (chunksFrom pd 0 ! n))]))"
    by blast
  then show ?thesis
    using chunksFrom_sorted [of pd 0]
    by (intro exI [of _ n] exI [of _ hs] exI [of _ rest])
       (simp add: writeProgramData_def world_simps)
qed

section \<open>The run as a whole\<close>

lemma deployProgram_invalid:
  assumes "truthy (apiKey c) = None \<or> truthy (apiSecretPath c) = None
           \<or> truthy (vaultAccountId c) = None \<or> programData c = None"
  shows "deployProgram env c w
     = toast ''Missing required fields''
         ''Please fill in all required fields and upload a program file'' error w"
  using assms by (auto simp: deployProgram_def split: option.splits)

lemma deployProgram_valid:
  assumes "truthy (apiKey c) = Some key" "truthy (apiSecretPath c) = Some secretPath"
    "truthy (vaultAccountId c) = Some vault" "programData c = Some pd"
  shows "deployProgram env c w
     = (case tryBlock env c key secretPath vault (deploymentStatus w) w of
          (w1, Inr u) \<Rightarrow> w1
        | (w1, Inl e) \<Rightarrow> reportError (deploymentStatus w) e w1)"
  using assms by (simp add: deployProgram_def)



lemma tryBlock_success:
  assumes "tryBlock env c key secretPath vault captured w = (w', Inr u)"
  shows "\<exists>w1 w2 w3 w4 payer kp pd.
      connect env key secretPath vault w = (w1, Inr (payer, kp))
    \<and> createProgramAccount env c payer kp w1 = (w2, Inr pd)
    \<and> writeProgramData env kp pd w2 = (w3, Inr ())
    \<and> finalizeProgram env kp w3 = (w4, Inr ())
    \<and> w' = reportSuccess captured kp w4"
  using assms
  by (auto simp: tryBlock_def split: prod.splits sum.splits)


lemma connect_wallet:
  assumes "connect env key secretPath vault w = (w1, Inr (p, kp))"
    and "getAccount env = Inr payer"
    and "new_Keypair env payer (replicate 64 0) = None"
  shows "p = payer \<and> publicKey kp = payer"
  using assms
  by (auto simp: connect_def Let_def split: option.splits sum.splits)

lemmas run_defs =
  deployProgram_def tryBlock_def connect_def createProgramAccount_def writeProgramData_def
  finalizeProgram_def finalizeTransaction_def finalizeInstruction_def finalizeData_def
  reportSuccess_def writeChunks.simps writeTransaction_def writeInstruction_def
  writeDataLayout_eq sendAndConfirmTransaction_def partialSign_def add_def new_Transaction_def
  writeUInt32LE_def Buffer_alloc_def slice_def chunkSize_def le32_def
  world_simps Let_def isDevnet_def isSilent_def feeLevel_def explorerUrl_def wroteLog_def
  showNat.simps

lemmas sample_defs = sampleEnv_def rejectingEnv_def sampleComponent_def idleWorld_def





























text \<open>
  Claim C6, as stated, fails. An empty buffer is an object, so it passes
  \<^verbatim>\<open>!programData\<close>: with collaborators that never throw, the run on an empty blob
  creates the connection, submits the account creation (of space 0) and the finalize
  transaction, and ends in the success state.
\<close>

theorem empty_blob_is_deployed:
  "status (deploymentStatus (deployProgram sampleEnv (sampleComponent (Some [])) idleWorld))
     = success
   \<and> CreateConnection ''https://api.devnet.solana.com''
         \<lparr>cfg_apiKey = ''key'', cfg_apiSecretPath = ''secret.pem'', cfg_vaultAccountId = ''0'',
          cfg_feeLevel = MEDIUM, cfg_silent = False, cfg_devnet = True\<rparr>
       \<in> set (trace (deployProgram sampleEnv (sampleComponent (Some [])) idleWorld))
   \<and> submissions (trace (deployProgram sampleEnv (sampleComponent (Some [])) idleWorld))
       = [\<lparr>instructions =
             [SystemProgram_createAccount (PublicKey ''Payer'') (PublicKey ''Payer'') 1 0
                (PublicKey ''BPFLoader2111111111111111111111111111111111'')],
           signatures = [PublicKey ''Payer'']\<rparr>,
          finalizeTransaction sampleEnv sampleKeypair [1, 0, 0, 0]]"
  by (simp add: run_defs sample_defs sampleKeypair_def)

text \<open>
  Claim C6, amended. When the program data is missing (\<open>null\<close>), the run does nothing
  but show the toast \<^verbatim>\<open>Missing required fields\<close>: no connection is created, no
  transaction is submitted, and the status is left as it was, so no success is reported.
  An empty blob is not rejected; the write phase on it submits nothing and does not
  throw.
\<close>

theorem missing_blob_rejected_before_network:
  assumes "programData c = None"
  shows "trace (deployProgram env c w)
       = trace w @ [Toast ''Missing required fields''
                      ''Please fill in all required fields and upload a program file'' error]
    \<and> deploymentStatus (deployProgram env c w) = deploymentStatus w
    \<and> writeProgramData env kp [] w = (addLog ''Writing program data in chunks...'' w, Inr ())"
  using assms
  by (simp add: deployProgram_invalid world_simps writeProgramData_def writeChunks_done)

theorem missing_blob_rejected_before_network_witness:
  "programData (sampleComponent None) = None
   \<and> trace (deployProgram sampleEnv (sampleComponent None) idleWorld)
       = [Toast ''Missing required fields''
            ''Please fill in all required fields and upload a program file'' error]
   \<and> status (deploymentStatus (deployProgram sampleEnv (sampleComponent None) idleWorld)) = idle"
proof -
  have h: "programData (sampleComponent None) = None"
    by (simp add: sampleComponent_def)
  show ?thesis
    using missing_blob_rejected_before_network [OF h, of sampleEnv idleWorld sampleKeypair] h
    by (simp add: idleWorld_def)
qed




text \<open>
  Claim C8 does not hold of the code. On a one-byte program with collaborators that never
  throw, fourteen lines are logged during the run, after the opening line set with the
  status. The terminal update builds its \<open>logs\<close> from the \<^verbatim>\<open>deploymentStatus\<close> that
  the closure captured when the button was pressed, which is empty on the first render:
  the final log holds the terminal message alone.
\<close>

theorem terminal_update_drops_log:
  "logged (trace (deployProgram sampleEnv (sampleComponent (Some [7])) idleWorld))
     = [''Configuring Fireblocks connection...'',
        ''Creating connection to Solana devnet...'',
        ''Deployer account: Payer'',
        ''Using connected wallet as program keypair: Payer'',
        ''Checking program file: program.so...'',
        ''Program size: 1 bytes'',
        ''Minimum balance for rent exemption: 0.000000001 SOL'',
        ''Deploying program...'',
        ''Creating program account...'',
        ''Program account created: https://explorer.solana.com/tx/sig?cluster=devnet'',
        ''Writing program data in chunks...'',
        ''Wrote chunk at offset 0: https://explorer.solana.com/tx/sig?cluster=devnet'',
        ''Finalizing program...'',
        ''Program finalized: https://explorer.solana.com/tx/sig?cluster=devnet'']
   \<and> deploymentStatus (deployProgram sampleEnv (sampleComponent (Some [7])) idleWorld)
       = \<lparr>status = success, message = ''Program deployment completed successfully!'',
          logs = [''Program deployment completed successfully!''],
          programId = Some ''Payer''\<rparr>"
  by (simp add: run_defs sample_defs)




text \<open>
  Claim C10. Let the inputs pass validation, let the wallet's account be \<open>payer\<close> and
  let the construction of the keypair from it not throw. Then the first phase either
  fails at the creation of the connection or yields \<open>payer\<close> both as the payer's key and
  as the public key of the program keypair; and the program id of the terminal status is
  the base58 text of \<open>payer\<close> when the run ends in the success state, and absent
  otherwise.
\<close>

theorem wallet_identity_is_payer:
  assumes "truthy (apiKey c) = Some key" "truthy (apiSecretPath c) = Some secretPath"
    "truthy (vaultAccountId c) = Some vault" "programData c = Some pd"
    and "getAccount env = Inr payer"
    and "new_Keypair env payer (replicate 64 0) = None"
  shows "(case snd (connect env key secretPath vault w) of
            Inl e \<Rightarrow> FireblocksConnectionAdapter_create env
                       (clusterApiUrl env ''devnet'')
                       \<lparr>cfg_apiKey = key, cfg_apiSecretPath = secretPath,
                        cfg_vaultAccountId = vault, cfg_feeLevel = MEDIUM,
                        cfg_silent = False, cfg_devnet = True\<rparr> = Some e
          | Inr (p, kp) \<Rightarrow> p = payer \<and> publicKey kp = payer)
    \<and> programId (deploymentStatus (deployProgram env c w))
        = (if status (deploymentStatus (deployProgram env c w)) = success
           then Some (toBase58 payer) else None)"
proof
  show "case snd (connect env key secretPath vault w) of
            Inl e \<Rightarrow> FireblocksConnectionAdapter_create env
                       (clusterApiUrl env ''devnet'')
                       \<lparr>cfg_apiKey = key, cfg_apiSecretPath = secretPath,
                        cfg_vaultAccountId = vault, cfg_feeLevel = MEDIUM,
                        cfg_silent = False, cfg_devnet = True\<rparr> = Some e
          | Inr (p, kp) \<Rightarrow> p = payer \<and> publicKey kp = payer"
    using assms(5,6)
    by (simp add: connect_def Let_def isDevnet_def isSilent_def feeLevel_def
        split: option.splits)
next
  obtain w' r where tb: "tryBlock env c key secretPath vault (deploymentStatus w) w = (w', r)"
    by (cases "tryBlock env c key secretPath vault (deploymentStatus w) w")
  show "programId (deploymentStatus (deployProgram env c w))
      = (if status (deploymentStatus (deployProgram env c w)) = success
         then Some (toBase58 payer) else None)"
  proof (cases r)
    case (Inl e)
    obtain msg where "e = Thrown msg"
      by (cases e)
    then show ?thesis
      by (simp add: deployProgram_valid [OF assms(1-4)] tb Inl world_simps)
  next
    case (Inr u)
    from tryBlock_success [OF tb [unfolded Inr]] obtain w1 w4 p kp where
      conn: "connect env key secretPath vault w = (w1, Inr (p, kp))"
      and w': "w' = reportSuccess (deploymentStatus w) kp w4"
      by blast
    from connect_wallet [OF conn assms(5,6)] have "publicKey kp = payer"
      by simp
    then show ?thesis
      by (simp add: deployProgram_valid [OF assms(1-4)] tb Inr w' reportSuccess_def world_simps)
  qed
qed

theorem wallet_identity_is_payer_witness:
  "truthy (apiKey (sampleComponent (Some [7]))) = Some ''key''
   \<and> truthy (apiSecretPath (sampleComponent (Some [7]))) = Some ''secret.pem''
   \<and> truthy (vaultAccountId (sampleComponent (Some [7]))) = Some ''0''
   \<and> programData (sampleComponent (Some [7])) = Some [7]
   \<and> getAccount sampleEnv = Inr (PublicKey ''Payer'')
   \<and> new_Keypair sampleEnv (PublicKey ''Payer'') (replicate 64 0) = None
   \<and> status (deploymentStatus (deployProgram sampleEnv (sampleComponent (Some [7])) idleWorld))
       = success
   \<and> programId (deploymentStatus (deployProgram sampleEnv (sampleComponent (Some [7])) idleWorld))
       = Some ''Payer''"
proof -
  let ?C = "sampleComponent (Some [7])"
  have h1: "truthy (apiKey ?C) = Some ''key''"
    and h2: "truthy (apiSecretPath ?C) = Some ''secret.pem''"
    and h3: "truthy (vaultAccountId ?C) = Some ''0''"
    and h4: "programData ?C = Some [7]"
    by (simp_all add: sampleComponent_def)
  have h5: "getAccount sampleEnv = Inr (PublicKey ''Payer'')"
    and h6: "new_Keypair sampleEnv (PublicKey ''Payer'') (replicate 64 0) = None"
    by (simp_all add: sampleEnv_def)
  have ok: "status (deploymentStatus (deployProgram sampleEnv ?C idleWorld)) = success"
    by (simp add: run_defs sample_defs)
  from wallet_identity_is_payer [OF h1 h2 h3 h4 h5 h6, of idleWorld] ok
  have "programId (deploymentStatus (deployProgram sampleEnv ?C idleWorld)) = Some ''Payer''"
    by simp
  with h1 h2 h3 h4 h5 h6 ok show ?thesis
    by (intro conjI)
qed

end
